theory Spec2Isabelle
  imports Complex_Main "HOL-Library.Product_Lexorder"
begin

section \<open>ConnectFood backend: proximity search and matching\<close>

text \<open>
  The development embeds \<^verbatim>\<open>haversine_km\<close>, \<^verbatim>\<open>nearby_listings\<close> and
  \<^verbatim>\<open>compute_match\<close> of \<^verbatim>\<open>main.py\<close> together with the \<^verbatim>\<open>Match\<close> model of
  \<^verbatim>\<open>schemas.py\<close>.

  Conventions of the embedding:
  \<^item> a Python \<^verbatim>\<open>float\<close> is a \<^typ>\<open>real\<close>: arithmetic is exact, there is no NaN, no
    infinity and no binary rounding error. \<^verbatim>\<open>round(x, n)\<close> rounds the exact value
    of \<open>x\<close> half to even at the \<open>n\<close>-th decimal. The program computes in binary
    floating point, so a value of the model can differ from the program's in the last
    digits, and a value rounded at a boundary by one unit of the last decimal kept;
  \<^item> an exception is a value of type \<open>error\<close>, and a function that can raise returns
    \<open>error + 'a\<close> with \<open>Inl\<close> for the exception;
  \<^item> the global store handle \<^verbatim>\<open>db\<close> is a \<open>store option\<close>, \<open>None\<close> for the handle that was
    never initialised; the store is passed in and returned;
  \<^item> \<^verbatim>\<open>random.uniform(0.85, 1.0)\<close> is an input: \<open>draw i\<close> is the value drawn for the
    \<open>i\<close>-th recipient of the loop;
  \<^item> \<^verbatim>\<open>datetime.now\<close> is an input, and an instant is an integer timestamp.
\<close>

subsection \<open>Exceptions\<close>

datatype error =
    ValueError
  | TypeError
  | InvalidId
  | ValidationError
  | HTTPException nat string

definition bindE :: "error + 'a \<Rightarrow> ('a \<Rightarrow> error + 'b) \<Rightarrow> error + 'b" where
  "bindE m f = (case m of Inl e \<Rightarrow> Inl e | Inr v \<Rightarrow> f v)"

subsection \<open>Numeric primitives of Python's \<^verbatim>\<open>math\<close> module and \<^verbatim>\<open>round\<close>\<close>

definition radians :: "real \<Rightarrow> real" where
  "radians x = x * (pi / 180)"

text \<open>\<^verbatim>\<open>math.sqrt\<close> raises \<^verbatim>\<open>ValueError\<close> on a negative argument.\<close>

definition py_sqrt :: "real \<Rightarrow> error + real" where
  "py_sqrt x = (if x < 0 then Inl ValueError else Inr (sqrt x))"

text \<open>\<^verbatim>\<open>math.atan2(y, x)\<close>: the angle of the point \<open>(x, y)\<close>, in \<open>(-pi, pi]\<close>.\<close>

definition atan2 :: "real \<Rightarrow> real \<Rightarrow> real" where
  "atan2 y x =
     (if 0 < x then arctan (y / x)
      else if x < 0 \<and> 0 \<le> y then arctan (y / x) + pi
      else if x < 0 \<and> y < 0 then arctan (y / x) - pi
      else if 0 < y then pi / 2
      else if y < 0 then - (pi / 2)
      else 0)"

definition round_half_even :: "real \<Rightarrow> int" where
  "round_half_even x =
     (let f = \<lfloor>x\<rfloor>; r = x - of_int f
      in if r < 1 / 2 then f
         else if 1 / 2 < r then f + 1
         else if even f then f else f + 1)"

definition py_round :: "real \<Rightarrow> nat \<Rightarrow> real" where
  "py_round x n = of_int (round_half_even (x * 10 ^ n)) / 10 ^ n"

subsection \<open>The distance primitive (\<^verbatim>\<open>haversine_km\<close>, main.py lines 26-33)\<close>

definition haversine_km :: "real \<Rightarrow> real \<Rightarrow> real \<Rightarrow> real \<Rightarrow> error + real" where
  "haversine_km lat1 lon1 lat2 lon2 =
     (let R = 6371;
          phi1 = radians lat1; phi2 = radians lat2;
          dphi = radians (lat2 - lat1);
          dlambda = radians (lon2 - lon1);
          a = (sin (dphi / 2))\<^sup>2 + cos phi1 * cos phi2 * (sin (dlambda / 2))\<^sup>2
      in bindE (py_sqrt a) (\<lambda>s1.
         bindE (py_sqrt (1 - a)) (\<lambda>s2.
         Inr (R * (2 * atan2 s1 s2)))))"

text \<open>
  The quantity \<^verbatim>\<open>a\<close> of \<^verbatim>\<open>haversine_km\<close>, named for the proofs. At antipodal points
  it is exactly 1, the edge of the domain of \<^verbatim>\<open>math.sqrt(1 - a)\<close>: the floating point
  value of the program can exceed 1 there (at \<open>(8, 0)\<close> and \<open>(-8, 180)\<close> it is
  \<^verbatim>\<open>1.0000000000000002\<close>),
  and then \<^verbatim>\<open>math.sqrt\<close> raises. The properties below are therefore stated for the case
  that the distance is returned; none of them rests on \<^verbatim>\<open>math.sqrt\<close> not raising.
\<close>

definition hav_a :: "real \<Rightarrow> real \<Rightarrow> real \<Rightarrow> real \<Rightarrow> real" where
  "hav_a lat1 lon1 lat2 lon2 =
     (sin (radians (lat2 - lat1) / 2))\<^sup>2
       + cos (radians lat1) * cos (radians lat2) * (sin (radians (lon2 - lon1) / 2))\<^sup>2"

subsection \<open>Documents and the store\<close>

text \<open>
  A document of the store is a dictionary; a key that \<^verbatim>\<open>.get\<close> reads with a default is an
  optional field, \<open>None\<close> for the absent key. Only the keys the two pipelines read are kept.
  \<open>l_expires_at\<close> is \<open>None\<close> also for a value that is not a \<^verbatim>\<open>datetime\<close>, which line 153
  treats like an absent one.
\<close>

type_synonym object_id = string

record listing_doc =
  l_id :: object_id
  l_donor_id :: "string option"
  l_type :: "string option"
  l_quantity :: "real option"
  l_lat :: "real option"
  l_lng :: "real option"
  l_expires_at :: "int option"
  l_status :: "string option"

record account_doc =
  a_id :: object_id
  a_role :: string
  a_is_active :: bool
  a_lat :: "real option"
  a_lng :: "real option"

text \<open>The \<^verbatim>\<open>Match\<close> model of schemas.py (lines 34-41).\<close>

record match =
  listing_id :: string
  donor_id :: string
  recipient_id :: string
  score :: real
  distance_km :: real
  route_eta_min :: real
  status :: string

record store =
  listing_coll :: "listing_doc list"
  account_coll :: "account_doc list"
  match_coll :: "(nat \<times> match) list"
  next_id :: nat

text \<open>
  Pydantic validation of \<^verbatim>\<open>Match(...)\<close>: \<^verbatim>\<open>score\<close> in \<open>[0, 1]\<close>, \<^verbatim>\<open>distance_km\<close> and
  \<^verbatim>\<open>route_eta_min\<close> not negative, \<^verbatim>\<open>status\<close> one of the five literals; a violated
  constraint raises \<^verbatim>\<open>ValidationError\<close>.
\<close>

definition Match ::
  "string \<Rightarrow> string \<Rightarrow> string \<Rightarrow> real \<Rightarrow> real \<Rightarrow> real \<Rightarrow> string \<Rightarrow> error + match" where
  "Match lid did rid sc dk eta stt =
     (if 0 \<le> sc \<and> sc \<le> 1 \<and> 0 \<le> dk \<and> 0 \<le> eta
         \<and> stt \<in> set [''proposed'', ''accepted'', ''rejected'', ''in_transit'', ''delivered'']
      then Inr \<lparr>listing_id = lid, donor_id = did, recipient_id = rid, score = sc,
                distance_km = dk, route_eta_min = eta, status = stt\<rparr>
      else Inl ValidationError)"

text \<open>
  \<^verbatim>\<open>bson.ObjectId(s)\<close> on a string: 24 hexadecimal digits, anything else raises
  \<^verbatim>\<open>InvalidId\<close>. The identifier is kept in its printed form, the lower-case digits, so that
  \<^verbatim>\<open>str\<close> of an identifier is the identifier itself.
\<close>

definition char_lower :: "char \<Rightarrow> char" where
  "char_lower c =
     (let n = (of_char c :: nat) in if 65 \<le> n \<and> n \<le> 90 then char_of (n + 32) else c)"

definition str_lower :: "string \<Rightarrow> string" where
  "str_lower s = map char_lower s"

definition is_hex :: "char \<Rightarrow> bool" where
  "is_hex c = (c \<in> set ''0123456789abcdefABCDEF'')"

definition ObjectId :: "string \<Rightarrow> error + object_id" where
  "ObjectId s =
     (if length s = 24 \<and> list_all is_hex s then Inr (str_lower s) else Inl InvalidId)"

text \<open>\<^verbatim>\<open>db["listing"].find_one({"_id": oid})\<close>: the first listing with that identifier.\<close>

definition find_one :: "listing_doc list \<Rightarrow> object_id \<Rightarrow> listing_doc option" where
  "find_one coll oid = find (\<lambda>d. l_id d = oid) coll"

text \<open>\<^verbatim>\<open>db["account"].find({"role": "recipient", "is_active": True})\<close>.\<close>

definition find_recipients :: "account_doc list \<Rightarrow> account_doc list" where
  "find_recipients coll = filter (\<lambda>a. a_role a = ''recipient'' \<and> a_is_active a) coll"

text \<open>
  Modelled from the spec: \<^verbatim>\<open>create_document\<close> of the \<^verbatim>\<open>database\<close> module, which is
  not among the sources. The spec gives it as \<^verbatim>\<open>create(collection, record) -> id\<close>, the
  collaborator that persists a generated match: the record is added to the collection
  under a new identifier, which is returned. Identifiers are opaque; here they are
  consecutive numbers.
\<close>

definition create_document :: "store \<Rightarrow> match \<Rightarrow> nat \<times> store" where
  "create_document st m =
     (next_id st,
      st\<lparr>match_coll := match_coll st @ [(next_id st, m)], next_id := Suc (next_id st)\<rparr>)"

text \<open>
  Modelled from the spec: \<^verbatim>\<open>get_documents\<close> of the \<^verbatim>\<open>database\<close> module, given as
  \<^verbatim>\<open>fetch_all(collection) -> sequence of records\<close>.
\<close>

definition get_documents :: "store \<Rightarrow> listing_doc list" where
  "get_documents st = listing_coll st"

subsection \<open>Geo-Search (\<^verbatim>\<open>nearby_listings\<close>, main.py lines 146-160)\<close>

text \<open>\<^verbatim>\<open>listing.get("lat", 0)\<close>, \<^verbatim>\<open>listing.get("lng", 0)\<close> and \<^verbatim>\<open>listing.get("type", "")\<close>.\<close>

definition listing_lat :: "listing_doc \<Rightarrow> real" where
  "listing_lat l = (case l_lat l of None \<Rightarrow> 0 | Some v \<Rightarrow> v)"

definition listing_lng :: "listing_doc \<Rightarrow> real" where
  "listing_lng l = (case l_lng l of None \<Rightarrow> 0 | Some v \<Rightarrow> v)"

definition listing_type :: "listing_doc \<Rightarrow> string" where
  "listing_type l = (case l_type l of None \<Rightarrow> [] | Some s \<Rightarrow> s)"

text \<open>A result of the search: the listing with its \<^verbatim>\<open>_id\<close> printed and \<^verbatim>\<open>distance_km\<close> added.\<close>

record listing_item =
  item_doc :: listing_doc
  item_id :: string
  item_distance_km :: real

record listings_response =
  resp_count :: nat
  resp_items :: "listing_item list"

text \<open>The loop of lines 151-158 over the fetched listings, \<open>results\<close> being the list built so far.\<close>

fun scan_listings ::
  "real \<Rightarrow> real \<Rightarrow> real \<Rightarrow> int \<Rightarrow> listing_doc list \<Rightarrow> listing_item list
     \<Rightarrow> error + listing_item list" where
  "scan_listings lat lng radius_km now [] results = Inr results"
| "scan_listings lat lng radius_km now (it # items) results =
     (if (case l_expires_at it of None \<Rightarrow> False | Some t \<Rightarrow> t < now)
      then scan_listings lat lng radius_km now items results
      else bindE (haversine_km lat lng (listing_lat it) (listing_lng it)) (\<lambda>d.
        if d \<le> radius_km \<and> l_status it \<in> set [Some ''available'', Some ''claimed'']
        then scan_listings lat lng radius_km now items
               (results @ [\<lparr>item_doc = it, item_id = l_id it,
                             item_distance_km = py_round d 2\<rparr>])
        else scan_listings lat lng radius_km now items results))"

definition nearby_listings ::
  "store option \<Rightarrow> real \<Rightarrow> real \<Rightarrow> real \<Rightarrow> int \<Rightarrow> error + listings_response" where
  "nearby_listings db lat lng radius_km now =
     (let items = (case db of None \<Rightarrow> [] | Some st \<Rightarrow> get_documents st)
      in bindE (scan_listings lat lng radius_km now items []) (\<lambda>results.
         let results = sort_key item_distance_km results
         in Inr \<lparr>resp_count = length results, resp_items = take 100 results\<rparr>))"

subsection \<open>Matcher (\<^verbatim>\<open>compute_match\<close>, main.py lines 168-210)\<close>

text \<open>\<^verbatim>\<open>r.get("lat") or 0.0\<close> and \<^verbatim>\<open>r.get("lng") or 0.0\<close>.\<close>

definition recipient_lat :: "account_doc \<Rightarrow> real" where
  "recipient_lat r = (case a_lat r of None \<Rightarrow> 0 | Some v \<Rightarrow> if v = 0 then 0 else v)"

definition recipient_lng :: "account_doc \<Rightarrow> real" where
  "recipient_lng r = (case a_lng r of None \<Rightarrow> 0 | Some v \<Rightarrow> if v = 0 then 0 else v)"

text \<open>Line 193: the lower-cased type of the listing, looked up in the one-element tuple of itself.\<close>

definition type_match :: "listing_doc \<Rightarrow> real" where
  "type_match listing =
     (if str_lower (listing_type listing) \<in> set [str_lower (listing_type listing)]
      then 1 else 8 / 10)"

text \<open>Line 195, the score before rounding and clamping; line 196, the travel time.\<close>

definition composite_score :: "real \<Rightarrow> real \<Rightarrow> real \<Rightarrow> real" where
  "composite_score dist_km tm freshness_factor =
     max 0 (1 - dist_km / 20) * (7 / 10) + tm * (2 / 10) + freshness_factor * (1 / 10)"

definition route_eta :: "real \<Rightarrow> real" where
  "route_eta dist_km = max 5 (dist_km / 40 * 60)"

text \<open>The body of the loop up to the construction of the \<^verbatim>\<open>Match\<close> (lines 190-205).\<close>

definition new_match :: "listing_doc \<Rightarrow> account_doc \<Rightarrow> real \<Rightarrow> error + match" where
  "new_match listing r freshness_factor =
     (let lat = listing_lat listing; lng = listing_lng listing;
          rlat = recipient_lat r; rlng = recipient_lng r
      in bindE (haversine_km lat lng rlat rlng) (\<lambda>dist_km.
         let sc = composite_score dist_km (type_match listing) freshness_factor;
             eta = route_eta dist_km
         in Match (l_id listing)
                  (case l_donor_id listing of None \<Rightarrow> [] | Some d \<Rightarrow> d)
                  (a_id r)
                  (min 1 (py_round sc 3))
                  (py_round dist_km 2)
                  (py_round eta 1)
                  ''proposed''))"

text \<open>
  The loop of lines 189-207: \<open>i\<close> counts the recipients done, \<open>st\<close> is the store and
  \<open>matches\<close> the list built so far. An exception leaves the records already created in
  the store.
\<close>

fun match_loop ::
  "listing_doc \<Rightarrow> (nat \<Rightarrow> real) \<Rightarrow> nat \<Rightarrow> account_doc list \<Rightarrow> store \<Rightarrow> (nat \<times> match) list
     \<Rightarrow> (error + (nat \<times> match) list) \<times> store" where
  "match_loop listing draw i [] st matches = (Inr matches, st)"
| "match_loop listing draw i (r # rs) st matches =
     (case new_match listing r (draw i) of
        Inl e \<Rightarrow> (Inl e, st)
      | Inr m \<Rightarrow>
          (case create_document st m of
             (mid, st') \<Rightarrow> match_loop listing draw (Suc i) rs st' (matches @ [(mid, m)])))"

text \<open>The key of line 209: \<^verbatim>\<open>(-x["score"], x["distance_km"])\<close>, tuples compared lexicographically.\<close>

definition match_key :: "nat \<times> match \<Rightarrow> real \<times> real" where
  "match_key x = (- score (snd x), distance_km (snd x))"

text \<open>
  With \<^verbatim>\<open>db\<close> not initialised, the subscript \<^verbatim>\<open>db["listing"]\<close> of line 170 raises
  \<^verbatim>\<open>TypeError\<close> ahead of the \<^verbatim>\<open>try\<close> block. Otherwise the lookups of lines 170 and 171
  only read the store and their result is overwritten at line 175. Every exception of
  line 175 becomes the 404 of line 177. \<^verbatim>\<open>qty\<close> of line 186 is bound and not used.
\<close>

definition compute_match ::
  "store option \<Rightarrow> string \<Rightarrow> (nat \<Rightarrow> real) \<Rightarrow> (error + (nat \<times> match) list) \<times> store option" where
  "compute_match db req_listing_id draw =
     (case db of
        None \<Rightarrow> (Inl TypeError, db)
      | Some st \<Rightarrow>
          (case ObjectId req_listing_id of
             Inl e \<Rightarrow> (Inl (HTTPException 404 ''Listing not found''), db)
           | Inr oid \<Rightarrow>
               (case find_one (listing_coll st) oid of
                  None \<Rightarrow> (Inl (HTTPException 404 ''Listing not found''), db)
                | Some listing \<Rightarrow>
                    (let recipients = find_recipients (account_coll st)
                     in if recipients = [] then (Inr [], db)
                        else
                          (let qty = (case l_quantity listing of None \<Rightarrow> 1 | Some q \<Rightarrow> q)
                           in case match_loop listing draw 0 recipients st [] of
                                (Inl e, st') \<Rightarrow> (Inl e, Some st')
                              | (Inr matches, st') \<Rightarrow>
                                  (Inr (take 5 (sort_key match_key matches)), Some st'))))))"

subsection \<open>The composite score in the words of the specification\<close>

definition clamp01 :: "real \<Rightarrow> real" where
  "clamp01 x = min 1 (max 0 x)"

definition spec_score :: "real \<Rightarrow> real \<Rightarrow> real \<Rightarrow> real" where
  "spec_score dist_km tm freshness_factor =
     py_round (clamp01 (max 0 (1 - dist_km / 20) * (7 / 10) + tm * (2 / 10)
                         + freshness_factor * (1 / 10))) 3"

subsection \<open>A small store for the examples\<close>

definition demo_listing :: listing_doc where
  "demo_listing =
     \<lparr>l_id = ''00000000000000000000000a'', l_donor_id = Some ''d1'', l_type = Some ''Bread'',
      l_quantity = Some 3, l_lat = Some 0, l_lng = Some 0, l_expires_at = None,
      l_status = Some ''available''\<rparr>"

definition demo_r1 :: account_doc where
  "demo_r1 = \<lparr>a_id = ''r1'', a_role = ''recipient'', a_is_active = True,
              a_lat = None, a_lng = None\<rparr>"

definition demo_r2 :: account_doc where
  "demo_r2 = \<lparr>a_id = ''r2'', a_role = ''recipient'', a_is_active = True,
              a_lat = Some 0, a_lng = Some 0\<rparr>"

definition demo_donor :: account_doc where
  "demo_donor = \<lparr>a_id = ''d1'', a_role = ''donor'', a_is_active = True,
                 a_lat = Some 0, a_lng = Some 0\<rparr>"

definition demo_store :: store where
  "demo_store = \<lparr>listing_coll = [demo_listing], account_coll = [demo_r1, demo_donor, demo_r2],
                 match_coll = [], next_id = 0\<rparr>"

text \<open>The two matches the Matcher creates on that store with the draws below.\<close>

definition demo_m1 :: match where
  "demo_m1 = \<lparr>listing_id = ''00000000000000000000000a'', donor_id = ''d1'', recipient_id = ''r1'',
      score = 985 / 1000, distance_km = 0, route_eta_min = 5, status = ''proposed''\<rparr>"

definition demo_m2 :: match where
  "demo_m2 = \<lparr>listing_id = ''00000000000000000000000a'', donor_id = ''d1'', recipient_id = ''r2'',
      score = 1, distance_km = 0, route_eta_min = 5, status = ''proposed''\<rparr>"

definition demo_draw :: "nat \<Rightarrow> real" where
  "demo_draw i = (if i = 0 then 85 / 100 else 1)"

text \<open>A store with no active recipient, and one with a listing a few metres east of the origin.\<close>

definition idle_store :: store where
  "idle_store = \<lparr>listing_coll = [demo_listing], account_coll = [demo_donor],
                 match_coll = [], next_id = 0\<rparr>"

definition near_listing :: listing_doc where
  "near_listing =
     \<lparr>l_id = ''00000000000000000000000b'', l_donor_id = Some ''d1'', l_type = Some ''rice'',
      l_quantity = Some 1, l_lat = Some 0, l_lng = Some (6 / 100000), l_expires_at = None,
      l_status = Some ''available''\<rparr>"

definition near_store :: store where
  "near_store = \<lparr>listing_coll = [near_listing], account_coll = [],
                 match_coll = [], next_id = 0\<rparr>"

section \<open>Properties\<close>

subsection \<open>Rounding\<close>

lemma rhe_floor_le: "\<lfloor>x\<rfloor> \<le> round_half_even x"
  unfolding round_half_even_def Let_def by simp

lemma rhe_le_floor1: "round_half_even x \<le> \<lfloor>x\<rfloor> + 1"
  unfolding round_half_even_def Let_def by simp

lemma rhe_lower: "x - 1 / 2 \<le> of_int (round_half_even x)"
  unfolding round_half_even_def Let_def by (auto; linarith)

lemma rhe_upper: "of_int (round_half_even x) \<le> x + 1 / 2"
  unfolding round_half_even_def Let_def by (auto; linarith)

lemma rhe_of_int: "round_half_even (of_int n) = n"
  unfolding round_half_even_def Let_def by simp

lemma rhe_le_int:
  assumes "x \<le> of_int n"
  shows "round_half_even x \<le> n"
proof (cases "x = of_int n")
  case True
  then show ?thesis by (simp add: rhe_of_int)
next
  case False
  with assms have "x < of_int n" by simp
  then have "\<lfloor>x\<rfloor> < n" by (simp add: floor_less_iff)
  with rhe_le_floor1 [of x] show ?thesis by linarith
qed

lemma rhe_ge_int:
  assumes "of_int n \<le> x"
  shows "n \<le> round_half_even x"
proof -
  from assms have "n \<le> \<lfloor>x\<rfloor>" by (simp add: le_floor_iff)
  with rhe_floor_le [of x] show ?thesis by linarith
qed

lemma py_round_nonneg:
  assumes "0 \<le> x"
  shows "0 \<le> py_round x n"
proof -
  have "of_int 0 \<le> x * 10 ^ n" using assms by simp
  then have "0 \<le> round_half_even (x * 10 ^ n)" by (rule rhe_ge_int)
  then show ?thesis by (simp add: py_round_def)
qed

lemma py_round_le_one:
  assumes "x \<le> 1"
  shows "py_round x n \<le> 1"
proof -
  have "x * 10 ^ n \<le> of_int (10 ^ n)" using assms by simp
  then have "round_half_even (x * 10 ^ n) \<le> 10 ^ n" by (rule rhe_le_int)
  then have "real_of_int (round_half_even (x * 10 ^ n)) \<le> 10 ^ n"
    by (metis of_int_le_iff of_int_numeral of_int_power)
  then show ?thesis by (simp add: py_round_def)
qed

lemma py_round_ge_one:
  assumes "1 \<le> x"
  shows "1 \<le> py_round x n"
proof -
  have "of_int (10 ^ n) \<le> x * 10 ^ n" using assms by simp
  then have "10 ^ n \<le> round_half_even (x * 10 ^ n)" by (rule rhe_ge_int)
  then have "10 ^ n \<le> real_of_int (round_half_even (x * 10 ^ n))"
    by (metis of_int_le_iff of_int_numeral of_int_power)
  then show ?thesis by (simp add: py_round_def)
qed

lemma py_round_one: "py_round 1 n = 1"
  using py_round_le_one [of 1 n] py_round_ge_one [of 1 n] by simp

lemma py_round_upper: "py_round x n \<le> x + 1 / (2 * 10 ^ n)"
proof -
  have "of_int (round_half_even (x * 10 ^ n)) \<le> x * 10 ^ n + 1 / 2" by (rule rhe_upper)
  then have "of_int (round_half_even (x * 10 ^ n)) / 10 ^ n \<le> (x * 10 ^ n + 1 / 2) / 10 ^ n"
    by (simp add: divide_right_mono)
  then show ?thesis by (simp add: py_round_def field_simps)
qed

lemma py_round_lower: "x - 1 / (2 * 10 ^ n) \<le> py_round x n"
proof -
  have "x * 10 ^ n - 1 / 2 \<le> of_int (round_half_even (x * 10 ^ n))" by (rule rhe_lower)
  then have "(x * 10 ^ n - 1 / 2) / 10 ^ n \<le> of_int (round_half_even (x * 10 ^ n)) / 10 ^ n"
    by (simp add: divide_right_mono)
  then show ?thesis by (simp add: py_round_def field_simps)
qed

lemma clamp_round_commute:
  assumes "0 \<le> x"
  shows "min 1 (py_round x n) = py_round (clamp01 x) n"
proof (cases "x \<le> 1")
  case True
  then have "py_round x n \<le> 1" by (rule py_round_le_one)
  with True assms show ?thesis by (simp add: clamp01_def)
next
  case False
  then have "1 \<le> py_round x n" by (intro py_round_ge_one) simp
  with False assms show ?thesis by (simp add: clamp01_def py_round_one)
qed

subsection \<open>The haversine distance: not negative when returned, values at simple points\<close>

lemma radians_diff: "radians (x - y) = radians x - radians y"
  by (simp add: radians_def left_diff_distrib)

lemma atan2_nonneg: "0 \<le> y \<Longrightarrow> 0 \<le> x \<Longrightarrow> 0 \<le> atan2 y x"
  by (auto simp: atan2_def)

lemma haversine_km_unfold:
  "haversine_km lat1 lon1 lat2 lon2 =
     bindE (py_sqrt (hav_a lat1 lon1 lat2 lon2)) (\<lambda>s1.
     bindE (py_sqrt (1 - hav_a lat1 lon1 lat2 lon2)) (\<lambda>s2.
     Inr (6371 * (2 * atan2 s1 s2))))"
  by (simp add: haversine_km_def hav_a_def Let_def)

text \<open>A distance that is returned is the arc of an angle in \<open>[0, pi]\<close>, hence not negative.\<close>

lemma haversine_km_nonneg:
  assumes "haversine_km lat1 lon1 lat2 lon2 = Inr d"
  shows "0 \<le> d"
proof -
  define a where "a = hav_a lat1 lon1 lat2 lon2"
  from assms have r: "bindE (py_sqrt a) (\<lambda>s1. bindE (py_sqrt (1 - a)) (\<lambda>s2.
      Inr (6371 * (2 * atan2 s1 s2)))) = Inr d"
    by (simp only: haversine_km_unfold a_def)
  then have a: "\<not> a < 0" "\<not> 1 - a < 0"
    by (auto simp: py_sqrt_def bindE_def split: if_splits)
  with r have d: "d = 6371 * (2 * atan2 (sqrt a) (sqrt (1 - a)))"
    by (simp add: py_sqrt_def bindE_def)
  have "0 \<le> atan2 (sqrt a) (sqrt (1 - a))"
    using a by (intro atan2_nonneg) simp_all
  then show ?thesis by (simp add: d)
qed

lemma sin_sq_neg: "(sin (radians (x - y) / 2))\<^sup>2 = (sin (radians (y - x) / 2))\<^sup>2"
proof -
  have "radians (x - y) = - radians (y - x)" by (simp add: radians_diff)
  then have "radians (x - y) / 2 = - (radians (y - x) / 2)" by simp
  then show ?thesis by (simp only: sin_minus power2_minus)
qed

lemma hav_a_sym: "hav_a lat1 lon1 lat2 lon2 = hav_a lat2 lon2 lat1 lon1"
  unfolding hav_a_def sin_sq_neg [of lat2 lat1] sin_sq_neg [of lon2 lon1] by simp

lemma haversine_km_same: "haversine_km lat lon lat lon = Inr 0"
  by (simp add: haversine_km_unfold hav_a_def radians_def py_sqrt_def bindE_def atan2_def)

text \<open>Along the equator the distance is the arc: the radius times the angle.\<close>

lemma haversine_km_equator:
  assumes "0 \<le> lon" "lon \<le> 180"
  shows "haversine_km 0 0 0 lon = Inr (6371 * radians lon)"
proof -
  define x where "x = radians lon / 2"
  have x: "0 \<le> x" "x \<le> pi / 2" using assms by (simp_all add: x_def radians_def)
  have a: "hav_a 0 0 0 lon = (sin x)\<^sup>2" by (simp add: hav_a_def x_def radians_def)
  have s: "0 \<le> sin x" using x by (intro sin_ge_zero) simp_all
  have c: "0 \<le> cos x" using x by (intro cos_ge_zero) simp_all
  have 1: "py_sqrt ((sin x)\<^sup>2) = Inr (sin x)" using s by (simp add: py_sqrt_def)
  have cs: "1 - (sin x)\<^sup>2 = (cos x)\<^sup>2" by (simp add: cos_squared_eq)
  have 2: "py_sqrt (1 - (sin x)\<^sup>2) = Inr (cos x)"
    unfolding cs using c by (simp add: py_sqrt_def)
  have at: "atan2 (sin x) (cos x) = x"
  proof (cases "x = pi / 2")
    case True
    have sc: "sin x = 1" "cos x = 0" by (simp_all add: True)
    show ?thesis unfolding atan2_def sc by (simp add: True)
  next
    case False
    with x have lt: "x < pi / 2" by simp
    with x have "0 < cos x" by (intro cos_gt_zero_pi) simp_all
    moreover have "arctan (tan x) = x" using x lt by (intro arctan_tan) simp_all
    ultimately show ?thesis by (simp add: atan2_def tan_def)
  qed
  have "haversine_km 0 0 0 lon = Inr (6371 * (2 * x))"
    unfolding haversine_km_unfold a 1 2 by (simp add: bindE_def at)
  then show ?thesis by (simp add: x_def)
qed

subsection \<open>The score of one recipient\<close>

lemma type_match_one: "type_match l = 1"
  by (simp add: type_match_def)

lemma composite_score_lower:
  assumes "85 / 100 \<le> f"
  shows "285 / 1000 \<le> composite_score d (type_match l) f"
proof -
  define m where "m = max 0 (1 - d / 20)"
  have "0 \<le> m" by (simp add: m_def)
  then have "285 / 1000 \<le> m * (7 / 10) + 1 * (2 / 10) + f * (1 / 10)"
    using assms by simp
  then show ?thesis by (simp add: composite_score_def type_match_one m_def)
qed

lemma new_match_value:
  assumes d: "haversine_km (listing_lat l) (listing_lng l) (recipient_lat r) (recipient_lng r) = Inr d"
    and f: "85 / 100 \<le> f" "f \<le> 1"
  shows "new_match l r f =
    Inr \<lparr>listing_id = l_id l,
         donor_id = (case l_donor_id l of None \<Rightarrow> [] | Some x \<Rightarrow> x),
         recipient_id = a_id r,
         score = min 1 (py_round (composite_score d (type_match l) f) 3),
         distance_km = py_round d 2,
         route_eta_min = py_round (route_eta d) 1,
         status = ''proposed''\<rparr>"
proof -
  have "0 \<le> composite_score d (type_match l) f"
    using composite_score_lower [OF f(1), of d l] by simp
  then have 1: "0 \<le> min 1 (py_round (composite_score d (type_match l) f) 3)"
    by (simp add: py_round_nonneg)
  have "0 \<le> d" using d by (rule haversine_km_nonneg)
  then have 2: "0 \<le> py_round d 2" by (rule py_round_nonneg)
  have 3: "0 \<le> py_round (route_eta d) 1" by (rule py_round_nonneg) (simp add: route_eta_def)
  show ?thesis
    using 1 2 3 by (simp add: new_match_def Let_def d bindE_def Match_def)
qed

subsection \<open>The loop of the Matcher\<close>



subsection \<open>The Matcher as a whole\<close>

lemma new_match_fields:
  assumes "new_match l r f = Inr m"
  shows "recipient_id m = a_id r" "listing_id m = l_id l" "status m = ''proposed''"
    "0 \<le> score m" "score m \<le> 1"
  using assms
  by (auto simp: new_match_def Let_def bindE_def Match_def split: sum.splits if_splits)

lemma match_key_le:
  "match_key x \<le> match_key y \<longleftrightarrow>
     score (snd y) < score (snd x)
       \<or> (score (snd x) = score (snd y) \<and> distance_km (snd x) \<le> distance_km (snd y))"
  by (auto simp: match_key_def less_eq_prod_def)

lemma top5_sorted:
  "sorted_wrt (\<lambda>x y. score (snd y) < score (snd x)
       \<or> (score (snd x) = score (snd y) \<and> distance_km (snd x) \<le> distance_km (snd y)))
     (take 5 (sort_key match_key ms))"
proof -
  have "sorted (map match_key (sort_key match_key ms))" by (rule sorted_sort_key)
  then have "sorted_wrt (\<lambda>x y. match_key x \<le> match_key y) (sort_key match_key ms)"
    by (simp only: sorted_map)
  then have "sorted_wrt (\<lambda>x y. match_key x \<le> match_key y) (take 5 (sort_key match_key ms))"
    by (rule sorted_wrt_take)
  then show ?thesis by (simp only: match_key_le)
qed

lemma compute_match_Inr_cases:
  assumes "compute_match db lid draw = (Inr out, db')"
  shows "out = [] \<or> (\<exists>ms. out = take 5 (sort_key match_key ms))"
  using assms
  by (auto simp: compute_match_def Let_def split: option.splits sum.splits if_splits prod.splits)

text \<open>
  Claim C3. Whatever list the Matcher returns is in descending order of score, equal scores
  in ascending order of \<^verbatim>\<open>distance_km\<close>, and has at most 5 entries.
\<close>

theorem matcher_output_sorted_top5:
  assumes "compute_match db lid draw = (Inr out, db')"
  shows "sorted_wrt (\<lambda>x y. score (snd y) < score (snd x)
             \<or> (score (snd x) = score (snd y) \<and> distance_km (snd x) \<le> distance_km (snd y))) out
         \<and> length out \<le> 5"
proof -
  from compute_match_Inr_cases [OF assms] show ?thesis
  proof
    assume "out = []"
    then show ?thesis by simp
  next
    assume "\<exists>ms. out = take 5 (sort_key match_key ms)"
    then obtain ms where "out = take 5 (sort_key match_key ms)" ..
    then show ?thesis using top5_sorted [of ms] by simp
  qed
qed

text \<open>
  Claim C4, as amended. With the store handle initialised, a listing id that does not
  resolve (it is not a well-formed identifier, or no listing of the store has it) makes the
  Matcher fail with the HTTP 404 "Listing not found"; the store is returned as it was, so no
  match was created.
\<close>

theorem matcher_unresolved_listing_not_found:
  assumes "\<And>oid. ObjectId lid = Inr oid \<Longrightarrow> find_one (listing_coll st) oid = None"
  shows "compute_match (Some st) lid draw
           = (Inl (HTTPException 404 ''Listing not found''), Some st)"
  using assms by (auto simp: compute_match_def split: sum.splits option.splits)

text \<open>
  Claim C5. When the listing resolves and no account has role recipient and the active
  flag, the Matcher returns the empty list without an error and leaves the store as it was.
\<close>

theorem matcher_no_recipients_empty:
  assumes "ObjectId lid = Inr oid" "find_one (listing_coll st) oid = Some l"
    and "find_recipients (account_coll st) = []"
  shows "compute_match (Some st) lid draw = (Inr [], Some st)"
  using assms by (simp add: compute_match_def)


subsection \<open>The Matcher on the example stores\<close>

lemma py_round_exact: "py_round (of_int k / 10 ^ n) n = of_int k / 10 ^ n"
  by (simp add: py_round_def rhe_of_int)

lemma ObjectId_demo:
  "ObjectId ''00000000000000000000000a'' = Inr ''00000000000000000000000a''"
  by (simp add: ObjectId_def is_hex_def str_lower_def char_lower_def)

lemma find_recipients_demo: "find_recipients (account_coll demo_store) = [demo_r1, demo_r2]"
  by (simp add: find_recipients_def demo_store_def demo_r1_def demo_r2_def demo_donor_def)

lemma find_one_demo:
  "find_one (listing_coll demo_store) ''00000000000000000000000a'' = Some demo_listing"
  by (simp add: find_one_def demo_store_def demo_listing_def)


lemma demo_distance:
  "haversine_km (listing_lat demo_listing) (listing_lng demo_listing) (recipient_lat demo_r1) (recipient_lng demo_r1) = Inr 0"
  "haversine_km (listing_lat demo_listing) (listing_lng demo_listing) (recipient_lat demo_r2) (recipient_lng demo_r2) = Inr 0"
  by (simp_all add: listing_lat_def listing_lng_def recipient_lat_def recipient_lng_def
      demo_listing_def demo_r1_def demo_r2_def haversine_km_same)

lemma demo_rounds:
  "py_round (985 / 1000) 3 = 985 / 1000" "py_round 1 3 = 1" "py_round 0 2 = 0" "py_round 5 1 = 5"
  using py_round_exact [of 985 3] py_round_exact [of 1000 3] py_round_exact [of 0 2]
    py_round_exact [of 50 1] by simp_all

lemma new_match_demo_r1: "new_match demo_listing demo_r1 (demo_draw 0) = Inr demo_m1"
proof -
  have dd: "demo_draw 0 = 85 / 100" by (simp add: demo_draw_def)
  have f: "85 / 100 \<le> (85 / 100 :: real)" "(85 / 100 :: real) \<le> 1"
    by simp_all
  note nm = new_match_value [OF demo_distance(1) f]
  have cs: "composite_score 0 (type_match demo_listing) (85 / 100) = 985 / 1000"
    by (simp add: composite_score_def type_match_one)
  have sc: "min 1 (py_round (985 / 1000) 3) = 985 / 1000"
    unfolding demo_rounds(1) by simp
  have eta: "route_eta 0 = 5" by (simp add: route_eta_def)
  show ?thesis
    unfolding dd nm cs sc eta demo_rounds(3,4) demo_m1_def
    by (simp add: demo_listing_def demo_r1_def)
qed

lemma new_match_demo_r2: "new_match demo_listing demo_r2 (demo_draw 1) = Inr demo_m2"
proof -
  have "composite_score 0 (type_match demo_listing) 1 = 1"
    by (simp add: composite_score_def type_match_one)
  then show ?thesis
    using new_match_value [OF demo_distance(2), of 1] demo_rounds
    by (simp add: demo_draw_def demo_m2_def route_eta_def demo_listing_def demo_r2_def)
qed

lemma compute_match_demo:
  "compute_match (Some demo_store) ''00000000000000000000000a'' demo_draw =
     (Inr [(1, demo_m2), (0, demo_m1)],
      Some (demo_store\<lparr>match_coll := [(0, demo_m1), (1, demo_m2)], next_id := 2\<rparr>))"
proof -
  have loop: "match_loop demo_listing demo_draw 0 [demo_r1, demo_r2] demo_store [] =
      (Inr [(0, demo_m1), (Suc 0, demo_m2)],
       demo_store\<lparr>match_coll := [(0, demo_m1), (Suc 0, demo_m2)], next_id := 2\<rparr>)"
    using new_match_demo_r1 new_match_demo_r2
    by (simp add: create_document_def demo_store_def)
  have sort: "\<not> match_key (0, demo_m1) \<le> match_key (Suc 0, demo_m2)"
    by (simp add: match_key_def demo_m1_def demo_m2_def less_eq_prod_def)
  show ?thesis
    unfolding compute_match_def
    by (simp add: ObjectId_demo find_one_demo find_recipients_demo loop sort
        del: match_loop.simps)
qed


lemma find_one_idle:
  "find_one (listing_coll idle_store) ''00000000000000000000000a'' = Some demo_listing"
  by (simp add: find_one_def idle_store_def demo_listing_def)

lemma find_recipients_idle: "find_recipients (account_coll idle_store) = []"
  by (simp add: find_recipients_def idle_store_def demo_donor_def)

theorem matcher_output_sorted_top5_witness:
  "compute_match (Some demo_store) ''00000000000000000000000a'' demo_draw =
     (Inr [(1, demo_m2), (0, demo_m1)],
      Some (demo_store\<lparr>match_coll := [(0, demo_m1), (1, demo_m2)], next_id := 2\<rparr>))
   \<and> (sorted_wrt (\<lambda>x y. score (snd y) < score (snd x)
             \<or> (score (snd x) = score (snd y) \<and> distance_km (snd x) \<le> distance_km (snd y)))
         [(1::nat, demo_m2), (0, demo_m1)]
       \<and> length [(1::nat, demo_m2), (0, demo_m1)] \<le> 5)"
  using compute_match_demo matcher_output_sorted_top5 [OF compute_match_demo]
  by (rule conjI)

theorem matcher_unresolved_listing_not_found_witness:
  "compute_match (Some demo_store) ''not-an-id'' demo_draw
     = (Inl (HTTPException 404 ''Listing not found''), Some demo_store)
   \<and> compute_match (Some demo_store) ''00000000000000000000000c'' demo_draw
     = (Inl (HTTPException 404 ''Listing not found''), Some demo_store)"
proof -
  have 1: "\<And>oid. ObjectId ''not-an-id'' = Inr oid
             \<Longrightarrow> find_one (listing_coll demo_store) oid = None"
    by (simp add: ObjectId_def)
  have 2: "\<And>oid. ObjectId ''00000000000000000000000c'' = Inr oid
             \<Longrightarrow> find_one (listing_coll demo_store) oid = None"
    by (auto simp: ObjectId_def is_hex_def str_lower_def char_lower_def find_one_def
        demo_store_def demo_listing_def)
  show ?thesis
    using matcher_unresolved_listing_not_found [OF 1]
      matcher_unresolved_listing_not_found [OF 2]
    by (rule conjI)
qed

theorem matcher_no_recipients_empty_witness:
  "compute_match (Some idle_store) ''00000000000000000000000a'' demo_draw
     = (Inr [], Some idle_store)"
  by (rule matcher_no_recipients_empty [OF ObjectId_demo find_one_idle find_recipients_idle])



text \<open>
  Claim C4 as stated fails where the store handle was never initialised: the subscript of
  line 170 raises \<^verbatim>\<open>TypeError\<close> ahead of the \<^verbatim>\<open>try\<close> block, for an id that does not
  parse as for any other.
\<close>

theorem matcher_uninitialised_store_counterexample:
  "compute_match None ''not-an-id'' demo_draw = (Inl TypeError, None)
   \<and> TypeError \<noteq> HTTPException 404 ''Listing not found''"
  by (simp add: compute_match_def)

subsection \<open>Score, type term and distance\<close>

text \<open>
  Claim C1. For every listing and recipient whose distance is returned and every freshness
  factor in \<open>[0.85, 1]\<close>, the \<^verbatim>\<open>Match\<close> is built, and its score is the composite of the
  specification (\<open>spec_score\<close>: the clamped sum rounded to 3 decimals) and lies in
  \<open>[0, 1]\<close>. The code rounds first and clamps from above afterwards; the two agree.
\<close>

theorem matcher_score_composite_in_unit_interval:
  assumes d: "haversine_km (listing_lat l) (listing_lng l) (recipient_lat r) (recipient_lng r) = Inr d"
    and f: "85 / 100 \<le> f" "f \<le> 1"
  shows "\<exists>m. new_match l r f = Inr m
           \<and> score m = spec_score d (type_match l) f
           \<and> 0 \<le> score m \<and> score m \<le> 1"
proof -
  define raw where "raw = composite_score d (type_match l) f"
  define m where "m = \<lparr>listing_id = l_id l,
         donor_id = (case l_donor_id l of None \<Rightarrow> [] | Some x \<Rightarrow> x),
         recipient_id = a_id r,
         score = min 1 (py_round raw 3),
         distance_km = py_round d 2,
         route_eta_min = py_round (route_eta d) 1,
         status = ''proposed''\<rparr>"
  have m: "new_match l r f = Inr m"
    unfolding m_def raw_def by (rule new_match_value [OF d f])
  have raw: "0 \<le> raw" unfolding raw_def using composite_score_lower [OF f(1), of d l] by simp
  have "score m = py_round (clamp01 raw) 3"
    using clamp_round_commute [OF raw, of 3] by (simp add: m_def)
  then have 1: "score m = spec_score d (type_match l) f"
    by (simp add: spec_score_def raw_def composite_score_def)
  have 2: "0 \<le> score m" "score m \<le> 1" using m by (rule new_match_fields)+
  from m 1 2 show ?thesis by blast
qed

theorem matcher_score_composite_in_unit_interval_witness:
  "haversine_km (listing_lat demo_listing) (listing_lng demo_listing)
       (recipient_lat demo_r1) (recipient_lng demo_r1) = Inr 0
   \<and> (\<exists>m. new_match demo_listing demo_r1 (85 / 100) = Inr m
           \<and> score m = spec_score 0 (type_match demo_listing) (85 / 100)
           \<and> 0 \<le> score m \<and> score m \<le> 1)"
proof -
  have f: "85 / 100 \<le> (85 / 100 :: real)" "(85 / 100 :: real) \<le> 1" by simp_all
  show ?thesis
    using demo_distance(1) matcher_score_composite_in_unit_interval [OF demo_distance(1) f]
    by (rule conjI)
qed

text \<open>
  Claim C10. With a freshness factor of at least 0.85 the score of line 195 is at least
  0.285 before rounding and clamping, whatever the distance, so clamping it to \<open>[0, 1]\<close> is
  clamping it from above only.
\<close>

theorem composite_score_lower_clamp_unreachable:
  assumes "85 / 100 \<le> f"
  shows "285 / 1000 \<le> composite_score d (type_match l) f
       \<and> clamp01 (composite_score d (type_match l) f)
           = min 1 (composite_score d (type_match l) f)"
proof -
  have lb: "285 / 1000 \<le> composite_score d (type_match l) f"
    using assms by (rule composite_score_lower)
  then have "max 0 (composite_score d (type_match l) f) = composite_score d (type_match l) f"
    by simp
  then have "clamp01 (composite_score d (type_match l) f) = min 1 (composite_score d (type_match l) f)"
    by (simp only: clamp01_def)
  with lb show ?thesis by blast
qed

theorem composite_score_lower_clamp_unreachable_witness:
  "285 / 1000 \<le> composite_score 25 (type_match demo_listing) (85 / 100)
   \<and> clamp01 (composite_score 25 (type_match demo_listing) (85 / 100))
       = min 1 (composite_score 25 (type_match demo_listing) (85 / 100))"
proof -
  have f: "85 / 100 \<le> (85 / 100 :: real)" by simp
  show ?thesis by (rule composite_score_lower_clamp_unreachable [OF f])
qed

text \<open>
  Claim C7. The \<^verbatim>\<open>type_match\<close> term is 1 for every listing, hence for every recipient of
  the loop; the value 0.8 of the other branch is never taken.
\<close>

theorem type_match_always_matched:
  "type_match listing = 1 \<and> type_match listing \<noteq> 8 / 10"
  by (simp add: type_match_def)

text \<open>
  Claim C8. The distance is symmetric: for all coordinates, both orders of the two points
  give the same outcome of \<^verbatim>\<open>haversine_km\<close>.
\<close>

theorem haversine_km_symmetric:
  "haversine_km lat1 lon1 lat2 lon2 = haversine_km lat2 lon2 lat1 lon1"
  unfolding haversine_km_unfold hav_a_sym [of lat1 lon1 lat2 lon2] ..

subsection \<open>The quantity of the listing\<close>

lemma new_match_quantity: "new_match (l\<lparr>l_quantity := q\<rparr>) r f = new_match l r f"
  by (simp add: new_match_def listing_lat_def listing_lng_def type_match_def listing_type_def)

lemma match_loop_quantity:
  "match_loop (l\<lparr>l_quantity := q\<rparr>) draw i rs st acc = match_loop l draw i rs st acc"
  by (induction rs arbitrary: i st acc)
    (simp_all add: new_match_quantity split: sum.splits prod.splits)

lemma match_loop_listing_coll:
  "match_loop l draw i rs (st\<lparr>listing_coll := ls\<rparr>) acc =
     (fst (match_loop l draw i rs st acc),
      (snd (match_loop l draw i rs st acc))\<lparr>listing_coll := ls\<rparr>)"
proof (induction rs arbitrary: i st acc)
  case Nil
  show ?case by simp
next
  case (Cons r rs)
  show ?case
  proof (cases "new_match l r (draw i)")
    case (Inl e)
    then show ?thesis by simp
  next
    case (Inr m)
    define st1 where "st1 = snd (create_document st m)"
    have a: "create_document st m = (next_id st, st1)"
      by (simp add: st1_def create_document_def)
    have b: "create_document (st\<lparr>listing_coll := ls\<rparr>) m = (next_id st, st1\<lparr>listing_coll := ls\<rparr>)"
      unfolding st1_def create_document_def by (cases st) simp
    have L: "match_loop l draw i (r # rs) (st\<lparr>listing_coll := ls\<rparr>) acc
        = match_loop l draw (Suc i) rs (st1\<lparr>listing_coll := ls\<rparr>) (acc @ [(next_id st, m)])"
      by (simp add: Inr b)
    have R: "match_loop l draw i (r # rs) st acc
        = match_loop l draw (Suc i) rs st1 (acc @ [(next_id st, m)])"
      by (simp add: Inr a)
    show ?thesis unfolding L R by (rule Cons.IH)
  qed
qed

lemma find_one_map_quantity:
  "find_one (map (\<lambda>d. d\<lparr>l_quantity := q d\<rparr>) ls) oid
     = map_option (\<lambda>d. d\<lparr>l_quantity := q d\<rparr>) (find_one ls oid)"
  by (induction ls) (simp_all add: find_one_def)

text \<open>
  Claim C9. The quantity of a listing has no influence on the Matcher. Two stores that
  differ only in the quantity fields of their listings give, for the same listing id and the
  same draws, the same response (the same matches with the same score, \<^verbatim>\<open>distance_km\<close>
  and \<^verbatim>\<open>route_eta_min\<close>, or the same error) and the same match collection.
\<close>

theorem matcher_independent_of_quantity:
  "fst (compute_match (Some (st\<lparr>listing_coll := map (\<lambda>d. d\<lparr>l_quantity := q d\<rparr>) (listing_coll st)\<rparr>)) lid draw)
     = fst (compute_match (Some st) lid draw)
   \<and> map_option match_coll
        (snd (compute_match (Some (st\<lparr>listing_coll := map (\<lambda>d. d\<lparr>l_quantity := q d\<rparr>) (listing_coll st)\<rparr>)) lid draw))
     = map_option match_coll (snd (compute_match (Some st) lid draw))"
proof (cases "ObjectId lid")
  case (Inl e)
  then show ?thesis by (simp add: compute_match_def)
next
  case (Inr oid)
  show ?thesis
  proof (cases "find_one (listing_coll st) oid")
    case None
    then show ?thesis by (simp add: compute_match_def Inr find_one_map_quantity)
  next
    case (Some l)
    show ?thesis
      by (simp add: compute_match_def Inr Some find_one_map_quantity Let_def
          match_loop_quantity match_loop_listing_coll split: prod.splits sum.splits)
  qed
qed


subsection \<open>Geo-Search\<close>

lemma scan_listings_within:
  assumes "scan_listings lat lng radius_km now items results = Inr res"
    and "\<forall>it\<in>set results.
             \<exists>d. haversine_km lat lng (listing_lat (item_doc it)) (listing_lng (item_doc it)) = Inr d
                 \<and> d \<le> radius_km \<and> item_distance_km it = py_round d 2"
  shows "\<forall>it\<in>set res.
             \<exists>d. haversine_km lat lng (listing_lat (item_doc it)) (listing_lng (item_doc it)) = Inr d
                 \<and> d \<le> radius_km \<and> item_distance_km it = py_round d 2"
  using assms
proof (induction items arbitrary: results)
  case Nil
  then show ?case by simp
next
  case (Cons x items)
  show ?case
  proof (cases "(case l_expires_at x of None \<Rightarrow> False | Some t \<Rightarrow> t < now)")
    case True
    then have "scan_listings lat lng radius_km now items results = Inr res"
      using Cons.prems(1) by simp
    then show ?thesis using Cons.prems(2) by (rule Cons.IH)
  next
    case False
    show ?thesis
    proof (cases "haversine_km lat lng (listing_lat x) (listing_lng x)")
      case (Inl e)
      then have "scan_listings lat lng radius_km now (x # items) results = Inl e"
        using False by (simp add: bindE_def)
      with Cons.prems(1) show ?thesis by simp
    next
      case d: (Inr d)
      show ?thesis
      proof (cases "d \<le> radius_km \<and> l_status x \<in> set [Some ''available'', Some ''claimed'']")
        case keep: True
        define y where "y = \<lparr>item_doc = x, item_id = l_id x, item_distance_km = py_round d 2\<rparr>"
        have inv: "\<forall>it\<in>set (results @ [y]).
               \<exists>d. haversine_km lat lng (listing_lat (item_doc it)) (listing_lng (item_doc it)) = Inr d
                   \<and> d \<le> radius_km \<and> item_distance_km it = py_round d 2"
          using Cons.prems(2) d keep by (auto simp: y_def)
        have "scan_listings lat lng radius_km now (x # items) results
            = scan_listings lat lng radius_km now items (results @ [y])"
          using False keep by (simp add: d bindE_def y_def)
        with Cons.prems(1) have "scan_listings lat lng radius_km now items (results @ [y]) = Inr res"
          by (simp only:)
        then show ?thesis using inv by (rule Cons.IH)
      next
        case drop: False
        have "scan_listings lat lng radius_km now (x # items) results
            = scan_listings lat lng radius_km now items results"
          using False drop by (auto simp: d bindE_def)
        with Cons.prems(1) have "scan_listings lat lng radius_km now items results = Inr res"
          by (simp only:)
        then show ?thesis using Cons.prems(2) by (rule Cons.IH)
      qed
    qed
  qed
qed

text \<open>
  Claim C2, as amended. Every listing Geo-Search returns has a computed distance of at most
  \<^verbatim>\<open>radius_km\<close>; its \<^verbatim>\<open>distance_km\<close> is that distance rounded to 2 decimals, which
  is at most \<^verbatim>\<open>radius_km\<close> + 0.005.
\<close>

theorem geo_search_within_radius:
  assumes "nearby_listings db lat lng radius_km now = Inr resp"
    and "it \<in> set (resp_items resp)"
  shows "\<exists>d. haversine_km lat lng (listing_lat (item_doc it)) (listing_lng (item_doc it)) = Inr d
           \<and> d \<le> radius_km
           \<and> item_distance_km it = py_round d 2
           \<and> item_distance_km it \<le> radius_km + 5 / 1000"
proof -
  define items where "items = (case db of None \<Rightarrow> [] | Some st \<Rightarrow> get_documents st)"
  from assms(1) obtain res where res: "scan_listings lat lng radius_km now items [] = Inr res"
      and resp: "resp_items resp = take 100 (sort_key item_distance_km res)"
    by (auto simp: nearby_listings_def items_def [symmetric] bindE_def Let_def split: sum.splits)
  have inv: "\<forall>it\<in>set res.
         \<exists>d. haversine_km lat lng (listing_lat (item_doc it)) (listing_lng (item_doc it)) = Inr d
             \<and> d \<le> radius_km \<and> item_distance_km it = py_round d 2"
    using res by (rule scan_listings_within) simp
  have "it \<in> set res"
    using assms(2) resp set_take_subset [of 100 "sort_key item_distance_km res"] by auto
  with inv obtain d where d:
      "haversine_km lat lng (listing_lat (item_doc it)) (listing_lng (item_doc it)) = Inr d"
      "d \<le> radius_km" "item_distance_km it = py_round d 2"
    by blast
  have "py_round d 2 \<le> d + 1 / (2 * 10 ^ 2)" by (rule py_round_upper)
  then have "item_distance_km it \<le> radius_km + 5 / 1000" using d(2,3) by simp
  with d show ?thesis by blast
qed

lemma pi_ge_three: "3 \<le> pi"
  using sin_x_le_x [of "pi / 6"] by (simp add: sin_30)

lemma near_coords: "listing_lat near_listing = 0" "listing_lng near_listing = 6 / 100000"
  by (simp_all add: listing_lat_def listing_lng_def near_listing_def)

lemma near_distance:
  "haversine_km 0 0 (listing_lat near_listing) (listing_lng near_listing)
     = Inr (6371 * radians (listing_lng near_listing))"
  unfolding near_coords by (rule haversine_km_equator) simp_all

lemma near_distance_bounds:
  "1 / 2 < 6371 * radians (listing_lng near_listing) * 100"
  "6371 * radians (listing_lng near_listing) * 100 < 1"
  "6371 * radians (listing_lng near_listing) \<le> 9 / 1000"
  using pi_ge_three pi_less_4 by (simp_all add: near_coords radians_def)

lemma py_round_near:
  assumes "1 / 2 < x * 100" "x * 100 < 1"
  shows "py_round x 2 = 1 / 100"
proof -
  have "\<lfloor>x * 100\<rfloor> = 0" using assms by (intro floor_unique) simp_all
  then have "round_half_even (x * 100) = 1"
    using assms by (simp add: round_half_even_def Let_def)
  then show ?thesis by (simp add: py_round_def)
qed

lemma near_rounded: "py_round (6371 * radians (listing_lng near_listing)) 2 = 1 / 100"
  using near_distance_bounds(1,2) by (rule py_round_near)

lemma nearby_listings_near:
  "nearby_listings (Some near_store) 0 0 (9 / 1000) 0 =
     Inr \<lparr>resp_count = 1,
          resp_items = [\<lparr>item_doc = near_listing, item_id = ''00000000000000000000000b'',
                          item_distance_km = 1 / 100\<rparr>]\<rparr>"
proof -
  have st: "l_expires_at near_listing = None" "l_status near_listing = Some ''available''"
    "l_id near_listing = ''00000000000000000000000b''"
    by (simp_all add: near_listing_def)
  have "scan_listings 0 0 (9 / 1000) 0 [near_listing] [] =
      Inr [\<lparr>item_doc = near_listing, item_id = ''00000000000000000000000b'',
              item_distance_km = py_round (6371 * radians (listing_lng near_listing)) 2\<rparr>]"
    using near_distance_bounds(3) by (simp add: near_distance bindE_def st)
  then have "scan_listings 0 0 (9 / 1000) 0 [near_listing] [] =
      Inr [\<lparr>item_doc = near_listing, item_id = ''00000000000000000000000b'',
              item_distance_km = 1 / 100\<rparr>]"
    by (simp only: near_rounded)
  then show ?thesis
    by (simp add: nearby_listings_def get_documents_def near_store_def bindE_def)
qed

text \<open>
  Claim C2 as stated fails for the rounded value: a listing 6.67 m from the query point
  passes the filter of a 9 m radius and is returned with \<^verbatim>\<open>distance_km\<close> = 0.01.
\<close>

theorem geo_search_rounded_distance_counterexample:
  "nearby_listings (Some near_store) 0 0 (9 / 1000) 0 =
     Inr \<lparr>resp_count = 1,
          resp_items = [\<lparr>item_doc = near_listing, item_id = ''00000000000000000000000b'',
                          item_distance_km = 1 / 100\<rparr>]\<rparr>
   \<and> \<not> (1 / 100 \<le> (9 / 1000 :: real))"
  using nearby_listings_near by simp

theorem geo_search_within_radius_witness:
  "\<exists>d. haversine_km 0 0 (listing_lat near_listing) (listing_lng near_listing) = Inr d
       \<and> d \<le> 9 / 1000
       \<and> 1 / 100 = py_round d 2
       \<and> (1 / 100 :: real) \<le> 9 / 1000 + 5 / 1000"
  using geo_search_within_radius [OF nearby_listings_near,
      of "\<lparr>item_doc = near_listing, item_id = ''00000000000000000000000b'',
           item_distance_km = 1 / 100\<rparr>"]
  by simp

end
